theory Spec2Isabelle
  imports Complex_Main "HOL-Library.Sublist"
begin

section \<open>JavaScript strings and numbers\<close>

text \<open>
  A JavaScript string is a sequence of UTF-16 code units; \<open>length\<close>, \<open>includes\<close>,
  \<open>substring\<close> and the regular expressions of the scraper all work on code units, so a
  string is modelled as a list of code-unit values. String literals of the source that are
  plain ASCII are written with \<open>ascii\<close>.

  A JavaScript number is an IEEE double. The prices handled below are finite and never
  \<open>NaN\<close> (every \<open>parseFloat\<close> of the scraper is guarded by \<open>isNaN\<close> or applied to a
  digit string), and they are modelled as exact rationals: comparisons and \<open>Math.min\<close>
  are exact on doubles, while sums, products and quotients are taken without the
  rounding error of the double format.
\<close>

type_synonym jsstring = "nat list"

definition ascii :: "string \<Rightarrow> jsstring" where
  "ascii s = map of_char s"

text \<open>\<open>String.prototype.includes\<close>: the argument occurs as a contiguous run.\<close>

fun js_includes :: "jsstring \<Rightarrow> jsstring \<Rightarrow> bool" where
  "js_includes [] t = (t = [])"
| "js_includes (c # cs) t = (prefix t (c # cs) \<or> js_includes cs t)"

text \<open>
  \<open>String.prototype.trim\<close> removes the white space and line terminators of ECMAScript
  from both ends.
\<close>

definition isWhiteSpace :: "nat \<Rightarrow> bool" where
  "isWhiteSpace c \<longleftrightarrow>
     c \<in> {9, 10, 11, 12, 13, 32, 160, 5760, 8232, 8233, 8239, 8287, 12288, 65279}
     \<or> (8192 \<le> c \<and> c \<le> 8202)"

definition trim :: "jsstring \<Rightarrow> jsstring" where
  "trim s = rev (dropWhile isWhiteSpace (rev (dropWhile isWhiteSpace s)))"

text \<open>
  \<open>String.prototype.toLowerCase\<close>. The Basic Latin capitals map to their small letters.
  Outside Basic Latin only two code units have a lower-case form that contains a Basic
  Latin letter: KELVIN SIGN (U+212A, to \<open>k\<close>) and LATIN CAPITAL LETTER I WITH DOT ABOVE
  (U+0130, to \<open>i\<close> followed by U+0307). Every other code unit is left as it is here; its
  real lower-case form is again outside Basic Latin, so that the \<open>includes\<close> tests of the
  source, all against ASCII tokens, have the same outcome.
\<close>

definition lowerUnit :: "nat \<Rightarrow> jsstring" where
  "lowerUnit c =
     (if 65 \<le> c \<and> c \<le> 90 then [c + 32]
      else if c = 8490 then [107]
      else if c = 304 then [105, 775]
      else [c])"

definition toLowerCase :: "jsstring \<Rightarrow> jsstring" where
  "toLowerCase s = concat (map lowerUnit s)"

text \<open>
  \<open>s.replace(/re/g, r)\<close> for a pattern given by its matcher \<open>m\<close>: \<open>m t\<close> is the length of
  the match of the pattern at the start of \<open>t\<close>, if there is one. The scan goes left to
  right, a match is replaced and the scan resumes behind it. Every pattern used below
  consumes at least one code unit.
\<close>

function replaceAll :: "(jsstring \<Rightarrow> nat option) \<Rightarrow> jsstring \<Rightarrow> jsstring \<Rightarrow> jsstring" where
  "replaceAll m r [] = []"
| "replaceAll m r (c # cs) =
     (case m (c # cs) of
        None \<Rightarrow> c # replaceAll m r cs
      | Some n \<Rightarrow> r @ replaceAll m r (drop (n - 1) cs))"
  by pat_completeness auto
termination
  by (relation "measure (\<lambda>(m, r, s). length s)") auto

text \<open>
  A letter under the \<open>i\<close> flag (without the \<open>u\<close> flag): the canonicalisation of ECMAScript
  never maps a code unit outside ASCII to an ASCII one, so a capital letter \<open>l\<close> matches
  itself and its small form only.
\<close>

definition ci :: "nat \<Rightarrow> nat \<Rightarrow> bool" where
  "ci l c \<longleftrightarrow> c = l \<or> c = l + 32"

definition isDigit :: "nat \<Rightarrow> bool" where
  "isDigit c \<longleftrightarrow> 48 \<le> c \<and> c \<le> 57"

text \<open>\<open>Math.round\<close>: the nearest integer, a half rounding up.\<close>

definition Math_round :: "rat \<Rightarrow> int" where
  "Math_round x = \<lfloor>x + 1 / 2\<rfloor>"

section \<open>PriceTextParser: \<open>parsePrice\<close> (scraper.ts)\<close>

text \<open>\<open>/[\<dots>]/g\<close> over the four currency signs: rupee U+20B9, dollar, euro U+20AC, pound U+00A3.\<close>

definition isCurrencySymbol :: "nat \<Rightarrow> bool" where
  "isCurrencySymbol c \<longleftrightarrow> c = 8377 \<or> c = 36 \<or> c = 8364 \<or> c = 163"

text \<open>\<open>/MRP:?/gi\<close>, \<open>/Rs\.?/gi\<close> and \<open>/INR/gi\<close>; the optional last unit is greedy.\<close>

fun match_MRP :: "jsstring \<Rightarrow> nat option" where
  "match_MRP (a # b # c # rest) =
     (if ci 77 a \<and> ci 82 b \<and> ci 80 c then Some (if take 1 rest = [58] then 4 else 3) else None)"
| "match_MRP _ = None"

fun match_Rs :: "jsstring \<Rightarrow> nat option" where
  "match_Rs (a # b # rest) =
     (if ci 82 a \<and> ci 83 b then Some (if take 1 rest = [46] then 3 else 2) else None)"
| "match_Rs _ = None"

fun match_INR :: "jsstring \<Rightarrow> nat option" where
  "match_INR (a # b # c # rest) = (if ci 73 a \<and> ci 78 b \<and> ci 82 c then Some 3 else None)"
| "match_INR _ = None"

definition cleanPrice :: "jsstring \<Rightarrow> jsstring" where
  "cleanPrice priceStr =
     filter (\<lambda>c. c \<noteq> 44)
       (trim (replaceAll match_INR []
         (replaceAll match_Rs []
           (replaceAll match_MRP []
             (filter (\<lambda>c. \<not> isCurrencySymbol c) priceStr)))))"

text \<open>
  \<open>cleaned.match(/(\d+\.?\d*)/)\<close>: the leftmost match starts at the first digit; the digits,
  one optional dot and the digits behind it are taken greedily. \<open>None\<close> is JavaScript's
  \<open>null\<close> (no match).
\<close>

definition firstNumber :: "jsstring \<Rightarrow> jsstring option" where
  "firstNumber s =
     (let t = dropWhile (\<lambda>c. \<not> isDigit c) s in
      if t = [] then None
      else
        let w = takeWhile isDigit t; r = dropWhile isDigit t in
        Some (case r of
                [] \<Rightarrow> w
              | d # r' \<Rightarrow> if d = 46 then w @ [46] @ takeWhile isDigit r' else w))"

text \<open>
  \<open>parseFloat\<close> on a string of the form matched above (digits, then possibly a dot and
  digits): the decimal value of the numeral.
\<close>

definition digitsValue :: "jsstring \<Rightarrow> nat" where
  "digitsValue ds = foldl (\<lambda>a c. 10 * a + (c - 48)) 0 ds"

definition parseFloat_decimal :: "jsstring \<Rightarrow> rat" where
  "parseFloat_decimal t =
     (let w = takeWhile isDigit t;
          f = takeWhile isDigit (drop (Suc (length w)) t)
      in of_nat (digitsValue w) + of_nat (digitsValue f) / 10 ^ length f)"

definition parsePrice :: "jsstring \<Rightarrow> rat" where
  "parsePrice priceStr =
     (if priceStr = [] then 0
      else case firstNumber (cleanPrice priceStr) of
             None \<Rightarrow> 0
           | Some tok \<Rightarrow> of_int (Math_round (parseFloat_decimal tok * 100)) / 100)"

section \<open>Pages, structured data and the network\<close>

text \<open>
  The values \<open>JSON.parse\<close> yields, and \<open>JUndefined\<close> for the value of a property that is
  not there.
\<close>

datatype json =
    JUndefined
  | JNull
  | JBool bool
  | JNum rat
  | JStr jsstring
  | JArr "json list"
  | JObj "(jsstring \<times> json) list"

text \<open>The result of \<open>parseFloat\<close>: \<open>NaN\<close> or a finite number.\<close>

datatype number = NaN | Num rat

fun truthy :: "json \<Rightarrow> bool" where
  "truthy JUndefined = False"
| "truthy JNull = False"
| "truthy (JBool b) = b"
| "truthy (JNum n) = (n \<noteq> 0)"
| "truthy (JStr s) = (s \<noteq> [])"
| "truthy (JArr xs) = True"
| "truthy (JObj kvs) = True"

text \<open>
  Reading one of the properties \<open>@type\<close>, \<open>offers\<close>, \<open>price\<close>, \<open>lowPrice\<close>,
  \<open>highPrice\<close>, \<open>includes\<close> of a parsed value other than \<open>null\<close> and \<open>undefined\<close> (on
  those the read raises a \<open>TypeError\<close>): of a repeated key of an object the last one
  counts; numbers, booleans, strings and arrays have none of the first five properties.
\<close>

definition nullish :: "json \<Rightarrow> bool" where
  "nullish v \<longleftrightarrow> v = JUndefined \<or> v = JNull"

fun jget :: "json \<Rightarrow> string \<Rightarrow> json" where
  "jget (JObj kvs) k = (case map_of (rev kvs) (ascii k) of None \<Rightarrow> JUndefined | Some v \<Rightarrow> v)"
| "jget v k = JUndefined"

text \<open>
  \<open>t === 'Product' || t?.includes?.('Product')\<close> for \<open>t = item['@type']\<close>: a string
  containing \<open>Product\<close>, or an array with the element \<open>'Product'\<close>. An object whose own
  \<open>includes\<close> property is neither \<open>null\<close> nor \<open>undefined\<close> is called as a function and
  raises (\<open>None\<close>).
\<close>

fun isProductType :: "json \<Rightarrow> bool option" where
  "isProductType (JStr s) = Some (s = ascii ''Product'' \<or> js_includes s (ascii ''Product''))"
| "isProductType (JArr xs) = Some (JStr (ascii ''Product'') \<in> set xs)"
| "isProductType (JObj kvs) =
     (if nullish (jget (JObj kvs) ''includes'') then Some False else None)"
| "isProductType v = Some False"

text \<open>
  What the cheerio queries of the scraper read off a loaded page:
  \<^item> \<open>texts d sel\<close>: for each element \<open>$(sel)\<close> selects, in document order, its \<open>text()\<close>;
  \<^item> \<open>ld_json d\<close>: for each \<open>script[type="application/ld+json"]\<close>, in order, the result
    of \<open>JSON.parse\<close> on its \<open>html()\<close>, \<open>None\<close> when that is empty or fails to parse;
  \<^item> \<open>attr_in d sel sub a\<close>: \<open>$(sel).first().find(sub).first().attr(a)\<close>, and
    \<open>attr_of d sub a\<close>: \<open>$(sub).first().attr(a)\<close>;
  \<^item> \<open>texts_in d sel sub\<close>: the texts of the elements of \<open>$(sel).first().find(sub)\<close>.
  The queries are total: a selector that matches nothing yields the empty list.
\<close>

record document =
  texts :: "string \<Rightarrow> jsstring list"
  ld_json :: "json option list"
  attr_of :: "string \<Rightarrow> string \<Rightarrow> jsstring option"
  texts_in :: "string \<Rightarrow> string \<Rightarrow> jsstring list"
  attr_in :: "string \<Rightarrow> string \<Rightarrow> string \<Rightarrow> jsstring option"

text \<open>\<open>$(sel).text()\<close> and \<open>$(sel).first().text()\<close>.\<close>

definition text_of :: "document \<Rightarrow> string \<Rightarrow> jsstring" where
  "text_of d sel = concat (texts d sel)"

definition first_of :: "jsstring list \<Rightarrow> jsstring" where
  "first_of ts = (case ts of [] \<Rightarrow> [] | t # _ \<Rightarrow> t)"

definition first_text :: "document \<Rightarrow> string \<Rightarrow> jsstring" where
  "first_text d sel = first_of (texts d sel)"

text \<open>A chain \<open>a || b || c || ''\<close> of strings: the first one that is not empty.\<close>

definition first_nonempty :: "jsstring list \<Rightarrow> jsstring" where
  "first_nonempty xs = first_of (filter (\<lambda>s. s \<noteq> []) xs)"

text \<open>
  The world outside: what a request to a URL brings back, \<open>encodeURIComponent\<close> (\<open>None\<close>:
  it raises \<open>URIError\<close>, on a lone surrogate), \<open>parseFloat\<close> applied to a parsed JSON value,
  and which of the two promises of the aggregator's race settles first.
\<close>

datatype response = NetworkError | Response bool document

datatype race = BatchSettled | DeadlineElapsed

record env =
  respond :: "jsstring \<Rightarrow> response"
  encodeURIComponent :: "jsstring \<Rightarrow> jsstring option"
  parseFloatJ :: "json \<Rightarrow> number"
  race_outcome :: race

datatype fetch_error = FetchFailed | HttpStatus

text \<open>
  \<open>fetchPage\<close>: one request; it throws when the request fails or \<open>response.ok\<close> is false.
  Every function that may fetch returns the URLs it requested beside its value.
\<close>

definition fetchPage :: "env \<Rightarrow> jsstring \<Rightarrow> jsstring list \<times> (fetch_error + document)" where
  "fetchPage e u =
     ([u], case respond e u of
             NetworkError \<Rightarrow> Inl FetchFailed
           | Response ok d \<Rightarrow> if \<not> ok then Inl HttpStatus else Inr d)"

section \<open>StructuredDataReader: \<open>extractPriceFromJsonLd\<close> (scraper.ts)\<close>

record JsonLdPrice =
  ld_current :: rat
  ld_original :: "number option"

text \<open>
  The loops over the offers of an item, the items of a script and the scripts of a page.
  \<open>Threw\<close> is an exception inside the inner \<open>try\<close>: the rest of that script is skipped and
  the scan goes on with the next script.
\<close>

datatype 'a scan = Found 'a | NotFound | Threw

fun scanOffers :: "env \<Rightarrow> json list \<Rightarrow> JsonLdPrice scan" where
  "scanOffers e [] = NotFound"
| "scanOffers e (offer # rest) =
     (if nullish offer then Threw
      else
        let price = (if truthy (jget offer ''price'') then jget offer ''price''
                     else jget offer ''lowPrice'')
        in case parseFloatJ e price of
             NaN \<Rightarrow> scanOffers e rest
           | Num n \<Rightarrow>
               if truthy price
               then Found \<lparr>ld_current = n,
                           ld_original = (if truthy (jget offer ''highPrice'')
                                          then Some (parseFloatJ e (jget offer ''highPrice''))
                                          else None)\<rparr>
               else scanOffers e rest)"

fun scanItems :: "env \<Rightarrow> json list \<Rightarrow> JsonLdPrice scan" where
  "scanItems e [] = NotFound"
| "scanItems e (item # rest) =
     (if nullish item then Threw
      else case isProductType (jget item ''@type'') of
             None \<Rightarrow> Threw
           | Some False \<Rightarrow> scanItems e rest
           | Some True \<Rightarrow>
               let offers = jget item ''offers'' in
               if truthy offers
               then
                 (case scanOffers e (case offers of JArr os \<Rightarrow> os | _ \<Rightarrow> [offers]) of
                    NotFound \<Rightarrow> scanItems e rest
                  | r \<Rightarrow> r)
               else scanItems e rest)"

fun scanScripts :: "env \<Rightarrow> json option list \<Rightarrow> JsonLdPrice option" where
  "scanScripts e [] = None"
| "scanScripts e (None # rest) = scanScripts e rest"
| "scanScripts e (Some jsonData # rest) =
     (case scanItems e (case jsonData of JArr items \<Rightarrow> items | _ \<Rightarrow> [jsonData]) of
        Found r \<Rightarrow> Some r
      | _ \<Rightarrow> scanScripts e rest)"

definition extractPriceFromJsonLd :: "env \<Rightarrow> document \<Rightarrow> JsonLdPrice option" where
  "extractPriceFromJsonLd e d = scanScripts e (ld_json d)"

section \<open>SiteExtractor: the six product scrapers (scraper.ts)\<close>

text \<open>
  The fields of \<open>ScrapedProduct\<close> that the properties below speak about. The images, the
  specifications and the ratings are left out: they are computed from further queries
  of the page by string operations that do not throw (the one \<open>JSON.parse\<close> among them
  sits in a \<open>try\<close> of its own), and no other field depends on them.
\<close>

record ScrapedProduct =
  title :: jsstring
  brand :: jsstring
  price_current :: rat
  price_original :: "rat option"
  price_currency :: jsstring
  highlights :: "jsstring list"

text \<open>
  The loop over a list of price selectors: the first selector whose trimmed text is not
  empty and parses to a positive price gives the price; \<open>0\<close> when none does.
\<close>

fun firstPositivePrice :: "(string \<Rightarrow> jsstring) \<Rightarrow> string list \<Rightarrow> rat" where
  "firstPositivePrice get [] = 0"
| "firstPositivePrice get (selector # rest) =
     (let priceText = trim (get selector) in
      if priceText \<noteq> [] \<and> parsePrice priceText > 0 then parsePrice priceText
      else firstPositivePrice get rest)"

text \<open>The \<open>try\<close>/\<open>catch\<close> around every scraper: a failed fetch is the only exception.\<close>

definition scrapeWith ::
  "(env \<Rightarrow> document \<Rightarrow> ScrapedProduct) \<Rightarrow> env \<Rightarrow> jsstring
     \<Rightarrow> jsstring list \<times> ScrapedProduct option" where
  "scrapeWith extract e u =
     (case fetchPage e u of
        (reqs, Inl err) \<Rightarrow> (reqs, None)
      | (reqs, Inr d) \<Rightarrow> (reqs, Some (extract e d)))"

subsection \<open>Amazon\<close>

text \<open>\<open>.replace(/^(Visit the |Brand: )/, '')\<close>\<close>

definition stripBylinePrefix :: "jsstring \<Rightarrow> jsstring" where
  "stripBylinePrefix s =
     (if prefix (ascii ''Visit the '') s then drop 10 s
      else if prefix (ascii ''Brand: '') s then drop 7 s
      else s)"

definition amazonAltPriceSelectors :: "string list" where
  "amazonAltPriceSelectors =
     [''#priceblock_ourprice'',
      ''#priceblock_dealprice'',
      ''#priceblock_saleprice'',
      ''.a-price .a-offscreen'',
      ''span.a-price span.a-offscreen'',
      ''#corePrice_feature_div .a-offscreen'',
      ''#corePriceDisplay_desktop_feature_div .a-offscreen'',
      ''.reinventPricePriceToPayMargin .a-offscreen'',
      ''#apex_offerDisplay_desktop .a-offscreen'']"

definition amazonCurrentPrice :: "env \<Rightarrow> document \<Rightarrow> rat" where
  "amazonCurrentPrice e d =
     (let jsonLdPrice = extractPriceFromJsonLd e d;
          priceWhole = filter isDigit (first_text d ''.a-price-whole'');
          priceFraction = filter isDigit (first_text d ''.a-price-fraction'');
          method1 = (if priceWhole \<noteq> []
                     then parseFloat_decimal
                            (priceWhole @ [46] @
                              (if priceFraction \<noteq> [] then priceFraction else ascii ''00''))
                     else 0);
          method2 = (if method1 = 0
                     then firstPositivePrice (first_text d) amazonAltPriceSelectors
                     else method1)
      in case jsonLdPrice of
           Some ld \<Rightarrow> if method2 = 0 then ld_current ld else method2
         | None \<Rightarrow> method2)"

definition amazonHighlights :: "document \<Rightarrow> jsstring list" where
  \<open>amazonHighlights d =
     (let bullets =
            filter (\<lambda>text. text \<noteq> [] \<and> length text > 10 \<and> length text < 500
                            \<and> \<not> js_includes text [8250])
              (map trim (texts d ''#feature-bullets li span.a-list-item, #feature-bullets ul li''))
      in if bullets = []
         then filter (\<lambda>text. text \<noteq> [] \<and> length text > 10 \<and> length text < 500)
                (map trim (texts d ''div[id*="aboutThisItem"] li, #aplus-feature-bullets li''))
         else bullets)\<close>

definition amazonProduct :: "env \<Rightarrow> document \<Rightarrow> ScrapedProduct" where
  \<open>amazonProduct e d =
     (let t = first_nonempty
                [trim (text_of d ''#productTitle''),
                 trim (text_of d ''h1.a-size-large''),
                 trim (text_of d ''h1[data-hook="product-title"]'')];
          b = first_nonempty
                [trim (stripBylinePrefix (text_of d ''#bylineInfo'')),
                 trim (text_of d ''a#bylineInfo'')];
          finalCurrentPrice = amazonCurrentPrice e d;
          originalPrice = parsePrice (first_nonempty
                [trim (first_text d ''.a-text-price .a-offscreen''),
                 trim (first_text d ''span.a-price.a-text-price span.a-offscreen''),
                 trim (text_of d ''#listPrice'')])
      in \<lparr>title = (if t \<noteq> [] then t else ascii ''Product''),
          brand = b,
          price_current = finalCurrentPrice,
          price_original = (if originalPrice > finalCurrentPrice then Some originalPrice else None),
          price_currency = ascii ''INR'',
          highlights = take 6 (amazonHighlights d)\<rparr>)\<close>

definition scrapeAmazonProduct :: "env \<Rightarrow> jsstring \<Rightarrow> jsstring list \<times> ScrapedProduct option" where
  "scrapeAmazonProduct = scrapeWith amazonProduct"

subsection \<open>Flipkart\<close>

definition flipkartPriceSelectors :: "string list" where
  \<open>flipkartPriceSelectors =
     [''div.Nx9bqj.CxhGGd'',
      ''div.Nx9bqj'',
      ''div._30jeq3._16Jk6d'',
      ''div._30jeq3'',
      ''div.CEmiEU div.UOCQB1'',
      ''div._25b18c div._30jeq3'',
      ''span._2WkVRV + span'',
      ''div[class*="price"] span'',
      ''div._16Jk6d'']\<close>

text \<open>The first selector, \<open>div.yRaY8j.A6\+E6v\<close>, holds a backslash (code 92).\<close>

definition flipkartOriginalPriceSelectors :: "string list" where
  "flipkartOriginalPriceSelectors =
     [''div.yRaY8j.A6'' @ [CHR 0x5C] @ ''+E6v'',
      ''div._3I9_wc._2p6lqe'',
      ''div.yRaY8j'',
      ''span.B_NuCI + div span'',
      ''div.UOCQB1 span'']"

fun flipkartOriginalPrice :: "document \<Rightarrow> rat \<Rightarrow> string list \<Rightarrow> rat" where
  "flipkartOriginalPrice d currentPrice [] = 0"
| "flipkartOriginalPrice d currentPrice (selector # rest) =
     (let priceText = trim (first_text d selector) in
      if priceText \<noteq> [] \<and> js_includes priceText [8377] \<and> parsePrice priceText > currentPrice
      then parsePrice priceText
      else flipkartOriginalPrice d currentPrice rest)"

definition flipkartCurrentPrice :: "env \<Rightarrow> document \<Rightarrow> rat" where
  "flipkartCurrentPrice e d =
     (let jsonLdPrice = extractPriceFromJsonLd e d;
          method1 = firstPositivePrice (first_text d) flipkartPriceSelectors
      in case jsonLdPrice of
           Some ld \<Rightarrow> if method1 = 0 then ld_current ld else method1
         | None \<Rightarrow> method1)"

definition flipkartHighlights :: "document \<Rightarrow> jsstring list" where
  "flipkartHighlights d =
     filter (\<lambda>text. text \<noteq> [] \<and> length text > 5 \<and> length text < 300)
       (map trim (texts d ''li._7eSDEz, li.rgWa7D''))"

definition flipkartProduct :: "env \<Rightarrow> document \<Rightarrow> ScrapedProduct" where
  \<open>flipkartProduct e d =
     (let t = first_nonempty
                [trim (text_of d ''span.VU-ZEz''),
                 trim (text_of d ''span.B_NuCI''),
                 trim (text_of d ''h1.yhB1nd span''),
                 trim (text_of d ''h1._9E25nV''),
                 trim (text_of d ''h1[class*="title"]''),
                 trim (text_of d ''div._2WkVRV'')];
          b = first_nonempty
                [trim (text_of d ''span._2WkVRV''),
                 trim (text_of d ''a._1fGeJ_'')];
          currentPrice = flipkartCurrentPrice e d;
          originalPrice = flipkartOriginalPrice d currentPrice flipkartOriginalPriceSelectors
      in \<lparr>title = (if t \<noteq> [] then t else ascii ''Product''),
          brand = b,
          price_current = currentPrice,
          price_original = (if originalPrice > currentPrice then Some originalPrice else None),
          price_currency = ascii ''INR'',
          highlights = take 6 (flipkartHighlights d)\<rparr>)\<close>

definition scrapeFlipkartProduct :: "env \<Rightarrow> jsstring \<Rightarrow> jsstring list \<times> ScrapedProduct option" where
  "scrapeFlipkartProduct = scrapeWith flipkartProduct"

subsection \<open>Croma, Meesho, Reliance Digital, Myntra\<close>

definition cromaHighlights :: "document \<Rightarrow> jsstring list" where
  "cromaHighlights d =
     filter (\<lambda>text. text \<noteq> [] \<and> length text > 5)
       (map trim (texts d ''ul.key-features li, div.product-highlights li''))"

definition cromaProduct :: "env \<Rightarrow> document \<Rightarrow> ScrapedProduct" where
  \<open>cromaProduct e d =
     (let t = first_nonempty
                [trim (text_of d ''h1.pd-title''),
                 trim (text_of d ''h1[data-testid="pdp-product-title"]'')];
          b = first_nonempty
                [trim (text_of d ''a.pd-brand''),
                 trim (text_of d ''p.pd-brand'')];
          currentPrice = parsePrice (first_nonempty
                [trim (first_text d ''span.amount''),
                 trim (text_of d ''span[data-testid="new-price"]''),
                 trim (text_of d ''span.new-price'')]);
          originalPrice = parsePrice (first_nonempty
                [trim (text_of d ''span.old-price''),
                 trim (text_of d ''span[data-testid="old-price"]'')])
      in \<lparr>title = (if t \<noteq> [] then t else ascii ''Product''),
          brand = b,
          price_current = currentPrice,
          price_original = (if originalPrice > currentPrice then Some originalPrice else None),
          price_currency = ascii ''INR'',
          highlights = take 6 (cromaHighlights d)\<rparr>)\<close>

definition scrapeCromaProduct :: "env \<Rightarrow> jsstring \<Rightarrow> jsstring list \<times> ScrapedProduct option" where
  "scrapeCromaProduct = scrapeWith cromaProduct"

definition meeshoHighlights :: "document \<Rightarrow> jsstring list" where
  \<open>meeshoHighlights d =
     filter (\<lambda>text. text \<noteq> [] \<and> length text > 5)
       (map trim (texts d ''div[class*="ProductDetails"] li, ul[class*="Features"] li''))\<close>

definition meeshoProduct :: "env \<Rightarrow> document \<Rightarrow> ScrapedProduct" where
  \<open>meeshoProduct e d =
     (let t = first_nonempty
                [trim (first_text d ''span.sc-eDvSVe''),
                 trim (text_of d ''h1[class*="ProductTitle"]''),
                 trim (first_text d ''p[class*="Text__StyledText"]'')];
          b = first_nonempty [trim (text_of d ''p[class*="BrandName"]'')];
          currentPrice = parsePrice (first_nonempty
                [trim (text_of d ''h4[class*="Price"]''),
                 trim (text_of d ''span[class*="discountedPrice"]''),
                 trim (first_of (filter (\<lambda>el. js_includes el [8377]) (texts d ''h5'')))]);
          originalPrice = parsePrice (first_nonempty
                [trim (text_of d ''p[class*="originalPrice"]''),
                 trim (text_of d ''span[class*="strikethrough"]'')])
      in \<lparr>title = (if t \<noteq> [] then t else ascii ''Product''),
          brand = b,
          price_current = currentPrice,
          price_original = (if originalPrice > currentPrice then Some originalPrice else None),
          price_currency = ascii ''INR'',
          highlights = take 6 (meeshoHighlights d)\<rparr>)\<close>

definition scrapeMeeshoProduct :: "env \<Rightarrow> jsstring \<Rightarrow> jsstring list \<times> ScrapedProduct option" where
  "scrapeMeeshoProduct = scrapeWith meeshoProduct"

definition relianceHighlights :: "document \<Rightarrow> jsstring list" where
  "relianceHighlights d =
     filter (\<lambda>text. text \<noteq> [] \<and> length text > 5)
       (map trim (texts d ''ul.pdp__highlights li, div.key-features li''))"

definition relianceDigitalProduct :: "env \<Rightarrow> document \<Rightarrow> ScrapedProduct" where
  \<open>relianceDigitalProduct e d =
     (let t = first_nonempty
                [trim (text_of d ''h1.pdp__title''),
                 trim (text_of d ''h1[class*="product-title"]'')];
          b = first_nonempty
                [trim (text_of d ''a.pdp__brand-link''),
                 trim (text_of d ''span[class*="brand"]'')];
          currentPrice = parsePrice (first_nonempty
                [trim (text_of d ''span.pdp__offerPrice''),
                 trim (first_text d ''span[class*="sp"]'')]);
          originalPrice = parsePrice (first_nonempty
                [trim (text_of d ''span.pdp__mrp''),
                 trim (text_of d ''span[class*="mrp"]'')])
      in \<lparr>title = (if t \<noteq> [] then t else ascii ''Product''),
          brand = b,
          price_current = currentPrice,
          price_original = (if originalPrice > currentPrice then Some originalPrice else None),
          price_currency = ascii ''INR'',
          highlights = take 6 (relianceHighlights d)\<rparr>)\<close>

definition scrapeRelianceDigitalProduct ::
  "env \<Rightarrow> jsstring \<Rightarrow> jsstring list \<times> ScrapedProduct option" where
  "scrapeRelianceDigitalProduct = scrapeWith relianceDigitalProduct"

definition myntraHighlights :: "document \<Rightarrow> jsstring list" where
  "myntraHighlights d =
     filter (\<lambda>text. text \<noteq> [] \<and> length text > 5)
       (map trim (texts d ''ul.pdp-features li''))"

definition myntraProduct :: "env \<Rightarrow> document \<Rightarrow> ScrapedProduct" where
  \<open>myntraProduct e d =
     (let t = first_nonempty
                [trim (text_of d ''h1.pdp-title''),
                 trim (text_of d ''h1[class*="product-title"]'')];
          b = first_nonempty
                [trim (text_of d ''h1.pdp-name''),
                 trim (text_of d ''a.pdp-brand'')];
          currentPrice = parsePrice (first_nonempty
                [trim (text_of d ''span.pdp-price strong''),
                 trim (text_of d ''span[class*="discounted-price"]'')]);
          originalPrice = parsePrice (first_nonempty
                [trim (text_of d ''span.pdp-mrp s''),
                 trim (text_of d ''span[class*="striked"]'')])
      in \<lparr>title = (if t \<noteq> [] then t else ascii ''Product''),
          brand = b,
          price_current = currentPrice,
          price_original = (if originalPrice > currentPrice then Some originalPrice else None),
          price_currency = ascii ''INR'',
          highlights = take 6 (myntraHighlights d)\<rparr>)\<close>

definition scrapeMyntraProduct :: "env \<Rightarrow> jsstring \<Rightarrow> jsstring list \<times> ScrapedProduct option" where
  "scrapeMyntraProduct = scrapeWith myntraProduct"

section \<open>ExtractionRouter: \<open>scrapeProduct\<close> (scraper.ts)\<close>

definition scrapeProduct :: "env \<Rightarrow> jsstring \<Rightarrow> jsstring list \<times> ScrapedProduct option" where
  "scrapeProduct e u =
     (let lowerUrl = toLowerCase u in
      if js_includes lowerUrl (ascii ''amazon'') then scrapeAmazonProduct e u
      else if js_includes lowerUrl (ascii ''flipkart'') then scrapeFlipkartProduct e u
      else if js_includes lowerUrl (ascii ''croma'') then scrapeCromaProduct e u
      else if js_includes lowerUrl (ascii ''meesho'') then scrapeMeeshoProduct e u
      else if js_includes lowerUrl (ascii ''reliancedigital'') then scrapeRelianceDigitalProduct e u
      else if js_includes lowerUrl (ascii ''myntra'') then scrapeMyntraProduct e u
      else ([], None))"

text \<open>
  The six extractors as a table, in the order in which \<open>scrapeProduct\<close> tests them: the
  domain token and the scraper.
\<close>

definition extractors ::
  "(string \<times> (env \<Rightarrow> jsstring \<Rightarrow> jsstring list \<times> ScrapedProduct option)) list" where
  "extractors =
     [(''amazon'', scrapeAmazonProduct),
      (''flipkart'', scrapeFlipkartProduct),
      (''croma'', scrapeCromaProduct),
      (''meesho'', scrapeMeeshoProduct),
      (''reliancedigital'', scrapeRelianceDigitalProduct),
      (''myntra'', scrapeMyntraProduct)]"

section \<open>PriceSearchAggregator: the marketplace searches (scraper.ts)\<close>

datatype availability = InStock | OutOfStock | Limited

record MarketplacePrice =
  store :: jsstring
  price :: rat
  currency :: jsstring
  url :: jsstring
  availability :: availability
  productTitle :: "jsstring option"

text \<open>
  The frame the four searches share: the title is cut to \<open>n\<close> code units and encoded, the
  search page is fetched and the first result is read off it. Whatever is thrown inside
  (by \<open>encodeURIComponent\<close> or by the fetch) is caught and gives \<open>null\<close>.
\<close>

definition searchWith ::
  "nat \<Rightarrow> string \<Rightarrow> (jsstring \<Rightarrow> document \<Rightarrow> MarketplacePrice option) \<Rightarrow> env \<Rightarrow> jsstring
     \<Rightarrow> jsstring list \<times> MarketplacePrice option" where
  "searchWith n base firstResult e title' =
     (case encodeURIComponent e (take n title') of
        None \<Rightarrow> ([], None)
      | Some searchQuery \<Rightarrow>
          let searchUrl = ascii base @ searchQuery in
          case fetchPage e searchUrl of
            (reqs, Inl err) \<Rightarrow> (reqs, None)
          | (reqs, Inr d) \<Rightarrow> (reqs, firstResult searchUrl d))"

text \<open>\<open>productLink ? base + link : searchUrl\<close>; an absent or empty \<open>href\<close> is falsy.\<close>

definition resultUrlOf :: "jsstring option \<Rightarrow> (jsstring \<Rightarrow> jsstring) \<Rightarrow> jsstring \<Rightarrow> jsstring" where
  "resultUrlOf productLink build searchUrl =
     (case productLink of
        None \<Rightarrow> searchUrl
      | Some l \<Rightarrow> if l \<noteq> [] then build l else searchUrl)"

definition amazonSearchPriceSelectors :: "string list" where
  \<open>amazonSearchPriceSelectors =
     [''.a-price-whole'',
      ''.a-price .a-offscreen'',
      ''span.a-price span.a-offscreen'',
      ''.a-price[data-a-color="price"] .a-offscreen'']\<close>

definition amazonFirstResult :: "jsstring \<Rightarrow> document \<Rightarrow> MarketplacePrice option" where
  \<open>amazonFirstResult searchUrl d =
     (let firstResult = ''div[data-component-type="s-search-result"]'' in
      if texts d firstResult = [] then None
      else
        let found = firstPositivePrice (\<lambda>selector. first_of (texts_in d firstResult selector))
                      amazonSearchPriceSelectors;
            productLink = attr_in d firstResult
                      ''a.a-link-normal.s-no-outline, a.a-link-normal[href*="/dp/"]'' ''href'';
            resultUrl = resultUrlOf productLink
                      (\<lambda>l. ascii ''https://www.amazon.in'' @ takeWhile (\<lambda>c. c \<noteq> 63) l) searchUrl;
            t = trim (concat (texts_in d firstResult ''h2 span, span.a-size-medium''))
        in if found > 0
           then Some \<lparr>store = ascii ''Amazon'', price = found, currency = ascii ''INR'',
                       url = resultUrl, availability = InStock, productTitle = Some t\<rparr>
           else None)\<close>

definition searchAmazonPrice :: "env \<Rightarrow> jsstring \<Rightarrow> jsstring list \<times> MarketplacePrice option" where
  "searchAmazonPrice = searchWith 100 ''https://www.amazon.in/s?k='' amazonFirstResult"

definition flipkartSearchPriceSelectors :: "string list" where
  \<open>flipkartSearchPriceSelectors =
     [''div.Nx9bqj._4b5DiR'',
      ''div.Nx9bqj'',
      ''div._30jeq3._1_WHN1'',
      ''div._30jeq3'',
      ''div._25b18c div._30jeq3'',
      ''div[class*="price"]'']\<close>

definition flipkartFirstResult :: "jsstring \<Rightarrow> document \<Rightarrow> MarketplacePrice option" where
  \<open>flipkartFirstResult searchUrl d =
     (let found = firstPositivePrice (first_text d) flipkartSearchPriceSelectors;
          productLink = attr_of d
                    ''a._1fQZEK, a.s1Q9rs, a._2rpwqI, a.CGtC98, a[href*="/p/"]'' ''href'';
          resultUrl = resultUrlOf productLink
                    (\<lambda>l. ascii ''https://www.flipkart.com'' @ takeWhile (\<lambda>c. c \<noteq> 63) l) searchUrl;
          t = first_nonempty
                [trim (first_text d ''div.KzDlHZ''),
                 trim (first_text d ''a.s1Q9rs''),
                 trim (first_text d ''div._2WkVRV'')]
      in if found > 0
         then Some \<lparr>store = ascii ''Flipkart'', price = found, currency = ascii ''INR'',
                     url = resultUrl, availability = InStock, productTitle = Some t\<rparr>
         else None)\<close>

definition searchFlipkartPrice :: "env \<Rightarrow> jsstring \<Rightarrow> jsstring list \<times> MarketplacePrice option" where
  "searchFlipkartPrice = searchWith 100 ''https://www.flipkart.com/search?q='' flipkartFirstResult"

definition cromaFirstResult :: "jsstring \<Rightarrow> document \<Rightarrow> MarketplacePrice option" where
  \<open>cromaFirstResult searchUrl d =
     (let found = parsePrice (trim (first_text d ''span.amount''));
          productLink = attr_of d ''a.product-link, a[class*="product"]'' ''href'';
          resultUrl = resultUrlOf productLink (\<lambda>l. ascii ''https://www.croma.com'' @ l) searchUrl;
          t = trim (first_text d ''h3.product-title'')
      in if found > 0
         then Some \<lparr>store = ascii ''Croma'', price = found, currency = ascii ''INR'',
                     url = resultUrl, availability = InStock, productTitle = Some t\<rparr>
         else None)\<close>

definition searchCromaPrice :: "env \<Rightarrow> jsstring \<Rightarrow> jsstring list \<times> MarketplacePrice option" where
  "searchCromaPrice = searchWith 80 ''https://www.croma.com/search/?q='' cromaFirstResult"

definition relianceFirstResult :: "jsstring \<Rightarrow> document \<Rightarrow> MarketplacePrice option" where
  \<open>relianceFirstResult searchUrl d =
     (let found = parsePrice (trim (first_text d ''span[class*="price"], span.sp''));
          productLink = attr_of d ''a[class*="product"]'' ''href'';
          resultUrl = resultUrlOf productLink
                    (\<lambda>l. ascii ''https://www.reliancedigital.in'' @ l) searchUrl;
          t = trim (first_text d ''p[class*="product-title"]'')
      in if found > 0
         then Some \<lparr>store = ascii ''Reliance Digital'', price = found, currency = ascii ''INR'',
                     url = resultUrl, availability = InStock, productTitle = Some t\<rparr>
         else None)\<close>

definition searchReliancePrice :: "env \<Rightarrow> jsstring \<Rightarrow> jsstring list \<times> MarketplacePrice option" where
  "searchReliancePrice =
     searchWith 80 ''https://www.reliancedigital.in/search?q='' relianceFirstResult"

section \<open>PriceSearchAggregator: \<open>searchProductPrices\<close> (scraper.ts)\<close>


text \<open>The loop that adds the results: those that are not \<open>null\<close> and have a positive price.\<close>

fun successful :: "MarketplacePrice option list \<Rightarrow> MarketplacePrice list" where
  "successful [] = []"
| "successful (None # rest) = successful rest"
| "successful (Some result # rest) =
     (if price result > 0 then result # successful rest else successful rest)"

definition sourceEntry :: "jsstring \<Rightarrow> rat \<Rightarrow> jsstring \<Rightarrow> MarketplacePrice" where
  "sourceEntry sourceMarketplace sourcePrice sourceUrl =
     \<lparr>store = sourceMarketplace, price = sourcePrice, currency = ascii ''INR'',
      url = sourceUrl, availability = InStock, productTitle = None\<rparr>"

text \<open>
  All searches are started before anything is awaited; \<open>Promise.all\<close> keeps their order.
  The race against the ten-second timer is decided by the environment: when the timer
  wins, \<open>results\<close> is the empty array the timer resolves to.
\<close>

definition searchPromises ::
  "env \<Rightarrow> jsstring \<Rightarrow> jsstring \<Rightarrow> (jsstring list \<times> MarketplacePrice option) list" where
  "searchPromises e title' sourceMarketplace =
     (if \<not> js_includes (toLowerCase sourceMarketplace) (ascii ''amazon'')
      then [searchAmazonPrice e title'] else []) @
     (if \<not> js_includes (toLowerCase sourceMarketplace) (ascii ''flipkart'')
      then [searchFlipkartPrice e title'] else []) @
     (if \<not> js_includes (toLowerCase sourceMarketplace) (ascii ''croma'')
      then [searchCromaPrice e title'] else []) @
     (if \<not> js_includes (toLowerCase sourceMarketplace) (ascii ''reliance'')
      then [searchReliancePrice e title'] else [])"

definition searchProductPrices ::
  "env \<Rightarrow> jsstring \<Rightarrow> jsstring \<Rightarrow> rat \<Rightarrow> jsstring \<Rightarrow> jsstring list \<times> MarketplacePrice list" where
  "searchProductPrices e title' sourceMarketplace sourcePrice sourceUrl =
     (let started = searchPromises e title' sourceMarketplace;
          results = (case race_outcome e of
                       BatchSettled \<Rightarrow> map snd started
                     | DeadlineElapsed \<Rightarrow> [])
      in (concat (map fst started),
          sourceEntry sourceMarketplace sourcePrice sourceUrl # successful results))"

section \<open>PriceRanker: the price list of \<open>POST /api/analyze\<close> (index.ts)\<close>


text \<open>
  \<open>generateMarketplaceUrls\<close> (gemini.ts): the search links of the marketplaces other than
  the source, as pairs of name and URL. \<open>None\<close>: \<open>encodeURIComponent\<close> raised.
\<close>

fun match_pct20 :: "jsstring \<Rightarrow> nat option" where
  "match_pct20 (a # b # c # rest) = (if a = 37 \<and> b = 50 \<and> c = 48 then Some 3 else None)"
| "match_pct20 _ = None"

definition generateMarketplaceUrls ::
  "env \<Rightarrow> jsstring \<Rightarrow> jsstring \<Rightarrow> (jsstring \<times> jsstring) list option" where
  "generateMarketplaceUrls e title' sourceMarketplace =
     (case encodeURIComponent e title' of
        None \<Rightarrow> None
      | Some encodedQuery \<Rightarrow>
          let marketplaces =
                [(ascii ''Amazon'', ascii ''https://www.amazon.in/s?k='' @ encodedQuery),
                 (ascii ''Flipkart'', ascii ''https://www.flipkart.com/search?q='' @ encodedQuery),
                 (ascii ''Myntra'',
                    ascii ''https://www.myntra.com/'' @ replaceAll match_pct20 [45] encodedQuery),
                 (ascii ''Meesho'', ascii ''https://www.meesho.com/search?q='' @ encodedQuery),
                 (ascii ''Croma'', ascii ''https://www.croma.com/search/?q='' @ encodedQuery),
                 (ascii ''Reliance Digital'',
                    ascii ''https://www.reliancedigital.in/search?q='' @ encodedQuery)]
          in Some (filter (\<lambda>m. toLowerCase (fst m) \<noteq> toLowerCase sourceMarketplace) marketplaces))"

record PriceData =
  pd_store :: jsstring
  pd_price :: rat
  pd_currency :: jsstring
  pd_url :: jsstring
  pd_availability :: availability
  savings :: "rat option"
  isBestPrice :: bool

definition toPriceData :: "MarketplacePrice \<Rightarrow> PriceData" where
  "toPriceData p =
     \<lparr>pd_store = store p, pd_price = price p, pd_currency = currency p, pd_url = url p,
      pd_availability = availability p, savings = None, isBestPrice = False\<rparr>"

text \<open>The body of \<open>prices.forEach\<close>: the flag is set, the savings only above the best price.\<close>

definition markBest :: "rat \<Rightarrow> PriceData \<Rightarrow> PriceData" where
  "markBest bestPrice p =
     (let q = p\<lparr>isBestPrice := (pd_price p = bestPrice)\<rparr> in
      if pd_price p > bestPrice
      then q\<lparr>savings := Some (of_int (Math_round (pd_price p - bestPrice)))\<rparr>
      else q)"

text \<open>
  \<open>if (prices.length > 0) { bestPrice = Math.min(...prices.map(p => p.price)); ... }\<close>:
  the minimum runs over every entry of the list.
\<close>

fun rankPrices :: "PriceData list \<Rightarrow> PriceData list" where
  "rankPrices [] = []"
| "rankPrices (p # ps) =
     (let bestPrice = fold min (map pd_price ps) (pd_price p) in
      map (markBest bestPrice) (p # ps))"

definition placeholder :: "jsstring \<times> jsstring \<Rightarrow> PriceData" where
  "placeholder mp =
     \<lparr>pd_store = fst mp, pd_price = 0, pd_currency = ascii ''INR'', pd_url = snd mp,
      pd_availability = InStock, savings = None, isBestPrice = False\<rparr>"

text \<open>
  From the searched prices to the \<open>prices\<close> of the response. An exception of
  \<open>generateMarketplaceUrls\<close> reaches the handler's \<open>catch\<close>, which answers with status 500.
\<close>

datatype handler_error = InternalServerError

definition priceList ::
  "env \<Rightarrow> jsstring \<Rightarrow> jsstring \<Rightarrow> MarketplacePrice list \<Rightarrow> handler_error + PriceData list" where
  "priceList e title' marketplace searchedPrices =
     (let prices = rankPrices (map toPriceData searchedPrices) in
      if length prices = 1
      then (case generateMarketplaceUrls e title' marketplace of
              None \<Rightarrow> Inl InternalServerError
            | Some marketplaceUrls \<Rightarrow> Inr (prices @ map placeholder (take 3 marketplaceUrls)))
      else Inr prices)"

text \<open>
  The minimum the specification describes, over the entries with a positive price only;
  \<open>None\<close> when there is none. It is not what the source computes and is used to compare
  the two.
\<close>

definition spec_minPrice :: "PriceData list \<Rightarrow> rat option" where
  "spec_minPrice ps =
     (case filter (\<lambda>x. x > 0) (map pd_price ps) of
        [] \<Rightarrow> None
      | x # xs \<Rightarrow> Some (fold min xs x))"

section \<open>Example inputs\<close>

text \<open>
  Price observations as the aggregator produces them, used for the concrete cases below:
  the entry of the source marketplace and a search result of another store.
\<close>

definition sourceAt :: "rat \<Rightarrow> MarketplacePrice" where
  "sourceAt p = sourceEntry (ascii ''Amazon'') p (ascii ''https://www.amazon.in/dp/B0'')"

definition resultAt :: "string \<Rightarrow> rat \<Rightarrow> MarketplacePrice" where
  "resultAt s p =
     \<lparr>store = ascii s, price = p, currency = ascii ''INR'',
      url = ascii ''https://www.example.com/p/1'', availability = InStock,
      productTitle = Some (ascii ''Phone'')\<rparr>"

text \<open>
  A world without network: every request fails, the timer of the aggregator wins, and
  \<open>encodeURIComponent\<close> is the identity (as it is on letters and digits).
\<close>

definition offline :: env where
  "offline = \<lparr>respond = (\<lambda>u. NetworkError), encodeURIComponent = (\<lambda>s. Some s),
      parseFloatJ = (\<lambda>j. NaN), race_outcome = DeadlineElapsed\<rparr>"

text \<open>
  A page on which no selector matches anything and that embeds no structured data, and
  a world in which every request is answered with status 200 and the page \<open>d\<close>;
  \<open>parseFloat\<close> is given on JSON numbers, where it is the number itself.
\<close>

definition emptyPage :: document where
  "emptyPage =
     \<lparr>texts = (\<lambda>sel. []), ld_json = [], attr_of = (\<lambda>sel a. None),
      texts_in = (\<lambda>sel sub. []), attr_in = (\<lambda>sel sub a. None)\<rparr>"

definition online :: "document \<Rightarrow> env" where
  "online d =
     \<lparr>respond = (\<lambda>u. Response True d), encodeURIComponent = (\<lambda>s. Some s),
      parseFloatJ = (\<lambda>j. case j of JNum n \<Rightarrow> Num n | _ \<Rightarrow> NaN),
      race_outcome = BatchSettled\<rparr>"

text \<open>
  A product page without any price in its markup, whose only structured-data script is
  \<open>{"@type": "Product", "offers": {"price": 999}}\<close>.
\<close>

definition ldPage :: document where
  "ldPage =
     emptyPage\<lparr>ld_json :=
       [Some (JObj [(ascii ''@type'', JStr (ascii ''Product'')),
                    (ascii ''offers'', JObj [(ascii ''price'', JNum 999)])])]\<rparr>"

text \<open>
  A page whose feature list (under the highlight selectors of all six scrapers but
  Amazon's) has the two items \<open>8GB RAM\<close> and a text of 600 letters.
\<close>

definition featurePage :: document where
  "featurePage =
     emptyPage\<lparr>texts := (\<lambda>sel.
       if sel \<in> {''li._7eSDEz, li.rgWa7D'',
                  ''ul.key-features li, div.product-highlights li'',
                  ''ul.pdp__highlights li, div.key-features li'',
                  ''ul.pdp-features li''}
       then [ascii ''8GB RAM'', replicate 600 97]
       else [])\<rparr>"

text \<open>
  A search page of Croma: the first \<open>span.amount\<close> reads \<open>(rupee)54,990\<close> (with the rupee
  sign U+20B9), the first product link is \<open>/p/1\<close> and the first title \<open>Phone X\<close>.
\<close>

definition searchPage :: document where
  \<open>searchPage =
     emptyPage\<lparr>
       texts := (\<lambda>sel.
         if sel = ''span.amount'' then [8377 # ascii ''54,990'']
         else if sel = ''h3.product-title'' then [ascii ''Phone X'']
         else []),
       attr_of := (\<lambda>sel a.
         if sel = ''a.product-link, a[class*="product"]'' \<and> a = ''href''
         then Some (ascii ''/p/1'') else None)\<rparr>\<close>

section \<open>The ranking step\<close>

lemma fold_min_Min: "fold min xs (x::rat) = Min (set (x # xs))"
  by (rule Min.set_eq_fold [symmetric])

lemma rankPrices_map:
  "ps \<noteq> [] \<Longrightarrow> rankPrices ps = map (markBest (Min (set (map pd_price ps)))) ps"
  by (cases ps) (simp_all add: fold_min_Min)

lemma markBest_price [simp]: "pd_price (markBest b p) = pd_price p"
  by (simp add: markBest_def Let_def)

lemma markBest_flag [simp]: "isBestPrice (markBest b p) = (pd_price p = b)"
  by (simp add: markBest_def Let_def)

lemma markBest_savings:
  "savings (markBest b p) =
     (if pd_price p > b then Some (of_int (Math_round (pd_price p - b))) else savings p)"
  by (simp add: markBest_def Let_def)

lemma spec_minPrice_all_positive:
  assumes "ps \<noteq> []" "\<forall>q\<in>set ps. pd_price q > 0"
  shows "spec_minPrice ps = Some (Min (set (map pd_price ps)))"
proof -
  from assms(2) have f: "filter (\<lambda>x. x > 0) (map pd_price ps) = map pd_price ps"
    by (induction ps) auto
  from assms(1) obtain p rest where ps: "ps = p # rest" by (cases ps) auto
  show ?thesis
    unfolding spec_minPrice_def f by (simp add: ps fold_min_Min)
qed

lemma filter_eq_distinct:
  "distinct xs \<Longrightarrow> y \<in> set xs \<Longrightarrow> length (filter (\<lambda>x. x = y) xs) = 1"
  by (induction xs) (auto simp: filter_empty_conv)

lemma count_min_distinct:
  assumes "xs \<noteq> []" "distinct xs"
  shows "length (filter (\<lambda>x. x = Min (set xs)) xs) = (1::nat)"
proof -
  have "Min (set xs) \<in> set xs" using assms(1) by (simp add: Min_in)
  then show ?thesis using assms(2) by (rule filter_eq_distinct [rotated])
qed

lemma floor_rat_numeral_div: "\<lfloor>(numeral a :: rat) / numeral b\<rfloor> = numeral a div numeral b"
  using floor_divide_of_int_eq [of "numeral a" "numeral b", where ?'a = rat] by simp

lemmas example_defs =
  sourceAt_def resultAt_def sourceEntry_def toPriceData_def markBest_def Math_round_def
  spec_minPrice_def ascii_def floor_rat_numeral_div

text \<open>
  C1, as the claim states it, fails on the code in two ways. Two observations at the same
  lowest price (the source at 500 and a search result at 500) are both flagged: there is
  no tie-breaking. And a source entry whose price is 0 (no price found) is the minimum of
  the list, so it is the flagged entry, while the minimum positive price is 500.
\<close>

theorem rankPrices_exactly_one_counterexample:
  "length (filter isBestPrice
      (rankPrices (map toPriceData [sourceAt 500, resultAt ''Flipkart'' 500]))) = 2
   \<and> map isBestPrice
      (rankPrices (map toPriceData [sourceAt 0, resultAt ''Flipkart'' 500])) = [True, False]
   \<and> spec_minPrice (map toPriceData [sourceAt 0, resultAt ''Flipkart'' 500]) = Some 500"
  by (simp add: example_defs)

text \<open>
  C1 (amended). For every non-empty list the ranking step keeps the prices and flags
  \<open>isBestPrice\<close> on exactly the entries whose price equals the minimum over all entries of
  the list, an entry with price 0 included: the number of flagged entries is the number
  of entries at that minimum and is at least one. When every price is positive, that
  minimum is the minimum positive price; when the prices are pairwise different, exactly
  one entry is flagged.
\<close>

theorem rankPrices_flags_minimum:
  assumes "ps \<noteq> []"
  shows "map pd_price (rankPrices ps) = map pd_price ps
       \<and> (\<forall>i<length ps. isBestPrice (rankPrices ps ! i)
              = (pd_price (ps ! i) = Min (set (map pd_price ps))))
       \<and> length (filter isBestPrice (rankPrices ps))
              = length (filter (\<lambda>x. x = Min (set (map pd_price ps))) (map pd_price ps))
       \<and> 1 \<le> length (filter isBestPrice (rankPrices ps))
       \<and> ((\<forall>q\<in>set ps. pd_price q > 0)
              \<longrightarrow> spec_minPrice ps = Some (Min (set (map pd_price ps))))
       \<and> (distinct (map pd_price ps) \<longrightarrow> length (filter isBestPrice (rankPrices ps)) = 1)"
proof -
  let ?m = "Min (set (map pd_price ps))"
  have r: "rankPrices ps = map (markBest ?m) ps" using assms by (rule rankPrices_map)
  have a: "map pd_price (rankPrices ps) = map pd_price ps" by (simp add: r comp_def)
  have b: "\<forall>i<length ps. isBestPrice (rankPrices ps ! i) = (pd_price (ps ! i) = ?m)"
    by (simp add: r)
  have c: "length (filter isBestPrice (rankPrices ps))
              = length (filter (\<lambda>x. x = ?m) (map pd_price ps))"
    by (simp add: r filter_map comp_def)
  have "?m \<in> set (map pd_price ps)" using assms by (intro Min_in) auto
  then have "filter (\<lambda>x. x = ?m) (map pd_price ps) \<noteq> []"
    unfolding filter_empty_conv by blast
  then have d: "1 \<le> length (filter isBestPrice (rankPrices ps))"
    unfolding c by (cases "filter (\<lambda>x. x = ?m) (map pd_price ps)") auto
  have e: "(\<forall>q\<in>set ps. pd_price q > 0) \<longrightarrow> spec_minPrice ps = Some ?m"
    using assms by (simp add: spec_minPrice_all_positive)
  have f: "distinct (map pd_price ps) \<longrightarrow> length (filter isBestPrice (rankPrices ps)) = 1"
    unfolding c using assms count_min_distinct [of "map pd_price ps"] by simp
  from a b c d e f show ?thesis by blast
qed

text \<open>
  The fourth scenario of the specification, \<open>[{A,1000},{B,900},{C,1200}]\<close>: B alone is
  flagged, at the minimum positive price 900.
\<close>

theorem rankPrices_flags_minimum_witness:
  "map toPriceData [sourceAt 1000, resultAt ''B'' 900, resultAt ''C'' 1200] \<noteq> []
   \<and> map isBestPrice
       (rankPrices (map toPriceData [sourceAt 1000, resultAt ''B'' 900, resultAt ''C'' 1200]))
     = [False, True, False]
   \<and> length (filter isBestPrice
       (rankPrices (map toPriceData [sourceAt 1000, resultAt ''B'' 900, resultAt ''C'' 1200])))
     = 1
   \<and> spec_minPrice (map toPriceData [sourceAt 1000, resultAt ''B'' 900, resultAt ''C'' 1200])
     = Some 900"
  using rankPrices_flags_minimum
    [of "map toPriceData [sourceAt 1000, resultAt ''B'' 900, resultAt ''C'' 1200]"]
  by (simp add: example_defs)

lemma priceList_Inr:
  assumes "priceList e t m searched = Inr out"
  shows "\<exists>ph. out = rankPrices (map toPriceData searched) @ map placeholder ph"
  using assms
  by (auto simp: priceList_def Let_def split: if_splits option.splits intro: exI [of _ "[]"])

lemma length_rankPrices [simp]: "length (rankPrices ps) = length ps"
  by (cases ps) (simp_all add: Let_def)

lemma toPriceData_price [simp]: "pd_price (toPriceData p) = price p"
  by (simp add: toPriceData_def)

lemma toPriceData_savings [simp]: "savings (toPriceData p) = None"
  by (simp add: toPriceData_def)

lemma placeholder_simps [simp]:
  "pd_price (placeholder mp) = 0" "savings (placeholder mp) = None"
  "isBestPrice (placeholder mp) = False"
  by (simp_all add: placeholder_def)

lemma ranked_nth:
  assumes "i < length searched"
  shows "rankPrices (map toPriceData searched) ! i
       = markBest (Min (set (map price searched))) (toPriceData (searched ! i))"
proof -
  from assms have ne: "map toPriceData searched \<noteq> []" by auto
  show ?thesis
    using assms by (simp add: rankPrices_map [OF ne] comp_def)
qed


lemmas pipeline_defs =
  priceList_def generateMarketplaceUrls_def toLowerCase_def lowerUnit_def placeholder_def
  example_defs offline_def

text \<open>
  C2, as the claim states it, fails on the code: the minimum is taken over every entry,
  so when no price was found for the source (price 0) and no search succeeded, the list is
  all zero and its source entry is flagged as the best price. The three placeholder
  entries that follow are not flagged.
\<close>

theorem priceList_zero_counterexample:
  "map pd_price (projr (priceList offline (ascii ''Phone'') (ascii ''Amazon'') [sourceAt 0]))
     = [0, 0, 0, 0]
   \<and> map isBestPrice (projr (priceList offline (ascii ''Phone'') (ascii ''Amazon'') [sourceAt 0]))
     = [True, False, False, False]"
  by (simp add: pipeline_defs)

text \<open>
  C2 (amended). The minimum of the ranking step runs over all entries of the searched
  list, entries with price 0 included. Hence, in a list without negative prices, an
  entry with price 0 is always flagged \<open>isBestPrice\<close> (in an all-zero list every ranked
  entry is) and never receives savings, and in an all-zero list no savings are computed at
  all. The zero-priced placeholder entries, appended after the ranking, are never flagged
  and never receive savings.
\<close>

theorem priceList_zero:
  assumes out: "priceList e t m searched = Inr out"
      and nonneg: "\<forall>r\<in>set searched. 0 \<le> price r"
  shows "length searched \<le> length out
       \<and> (\<forall>i<length searched. pd_price (out ! i) = price (searched ! i)
             \<and> isBestPrice (out ! i) = (price (searched ! i) = Min (set (map price searched))))
       \<and> (\<forall>i<length searched. price (searched ! i) = 0 \<longrightarrow> isBestPrice (out ! i))
       \<and> (\<forall>q\<in>set out. pd_price q = 0 \<longrightarrow> savings q = None)
       \<and> (\<forall>i<length out. length searched \<le> i \<longrightarrow>
             pd_price (out ! i) = 0 \<and> \<not> isBestPrice (out ! i) \<and> savings (out ! i) = None)
       \<and> ((\<forall>r\<in>set searched. price r = 0) \<longrightarrow> (\<forall>q\<in>set out. savings q = None))"
proof -
  let ?m = "Min (set (map price searched))"
  let ?r = "rankPrices (map toPriceData searched)"
  from priceList_Inr [OF out] obtain ph where o: "out = ?r @ map placeholder ph" by blast
  have len: "length ?r = length searched" by simp
  have nth_r: "out ! i = markBest ?m (toPriceData (searched ! i))" if "i < length searched" for i
    using that by (simp add: o nth_append ranked_nth)
  have nth_p: "out ! i = placeholder (ph ! (i - length searched))"
    if "i < length out" "length searched \<le> i" for i
    using that by (simp add: o nth_append)
  have m_le: "?m \<le> price (searched ! i)" if "i < length searched" for i
    using that by (intro Min_le) auto
  have m_ge: "0 \<le> ?m" if "searched \<noteq> []"
    using that nonneg by (subst Min_ge_iff) auto
  have a: "length searched \<le> length out" by (simp add: o)
  have b: "\<forall>i<length searched. pd_price (out ! i) = price (searched ! i)
             \<and> isBestPrice (out ! i) = (price (searched ! i) = ?m)"
    by (simp add: nth_r)
  have c: "\<forall>i<length searched. price (searched ! i) = 0 \<longrightarrow> isBestPrice (out ! i)"
  proof (intro allI impI)
    fix i assume i: "i < length searched" and z: "price (searched ! i) = 0"
    then have "searched \<noteq> []" by auto
    from m_ge [OF this] m_le [OF i] z have "?m = 0" by simp
    with z show "isBestPrice (out ! i)" by (simp add: nth_r [OF i])
  qed
  have sav: "savings (out ! i) = None" if "i < length out" "pd_price (out ! i) = 0" for i
  proof (cases "i < length searched")
    case True
    then have ne: "searched \<noteq> []" by auto
    from that(2) have z: "price (searched ! i) = 0" by (simp add: nth_r [OF True])
    with m_ge [OF ne] have "\<not> ?m < price (searched ! i)" by simp
    then show ?thesis by (simp add: nth_r [OF True] markBest_savings)
  next
    case False
    then show ?thesis using nth_p [OF that(1)] by simp
  qed
  have d: "\<forall>q\<in>set out. pd_price q = 0 \<longrightarrow> savings q = None"
    using sav by (auto simp: in_set_conv_nth)
  have e: "\<forall>i<length out. length searched \<le> i \<longrightarrow>
             pd_price (out ! i) = 0 \<and> \<not> isBestPrice (out ! i) \<and> savings (out ! i) = None"
    using nth_p by simp
  have f: "(\<forall>r\<in>set searched. price r = 0) \<longrightarrow> (\<forall>q\<in>set out. savings q = None)"
  proof (intro impI ballI)
    fix q assume z: "\<forall>r\<in>set searched. price r = 0" and q: "q \<in> set out"
    from q obtain i where i: "i < length out" "out ! i = q" by (auto simp: in_set_conv_nth)
    have "pd_price (out ! i) = 0"
    proof (cases "i < length searched")
      case True
      with z show ?thesis by (simp add: nth_r [OF True])
    next
      case False
      then show ?thesis using nth_p [OF i(1)] by simp
    qed
    with sav [OF i(1)] i(2) show "savings q = None" by simp
  qed
  from a b c d e f show ?thesis by blast
qed


theorem priceList_zero_witness:
  "0 \<le> price (sourceAt 0)
   \<and> \<not> isl (priceList offline (ascii ''Phone'') (ascii ''Amazon'') [sourceAt 0])
   \<and> map isBestPrice (projr (priceList offline (ascii ''Phone'') (ascii ''Amazon'') [sourceAt 0]))
     = [True, False, False, False]
   \<and> map savings (projr (priceList offline (ascii ''Phone'') (ascii ''Amazon'') [sourceAt 0]))
     = [None, None, None, None]"
proof -
  let ?out = "projr (priceList offline (ascii ''Phone'') (ascii ''Amazon'') [sourceAt 0])"
  have h: "priceList offline (ascii ''Phone'') (ascii ''Amazon'') [sourceAt 0] = Inr ?out"
    by (simp add: pipeline_defs)
  have n: "\<forall>r\<in>set [sourceAt 0]. 0 \<le> price r"
    by (simp add: example_defs)
  from priceList_zero [OF h n] show ?thesis
    by (simp add: pipeline_defs)
qed




section \<open>The price parser\<close>



































lemmas parsePrice_eval =
  parsePrice_def cleanPrice_def firstNumber_def parseFloat_decimal_def digitsValue_def
  Math_round_def ascii_def isDigit_def isCurrencySymbol_def trim_def isWhiteSpace_def ci_def
  floor_rat_numeral_div




section \<open>The site extractors\<close>

lemma scrapeWith_Some:
  "snd (scrapeWith ex e u) = Some p \<Longrightarrow> \<exists>d. p = ex e d"
  by (auto simp: scrapeWith_def fetchPage_def split: response.splits if_splits)

lemmas scrape_defs =
  scrapeAmazonProduct_def scrapeFlipkartProduct_def scrapeCromaProduct_def
  scrapeMeeshoProduct_def scrapeRelianceDigitalProduct_def scrapeMyntraProduct_def

lemmas product_defs =
  amazonProduct_def flipkartProduct_def cromaProduct_def meeshoProduct_def
  relianceDigitalProduct_def myntraProduct_def

lemmas highlights_defs =
  amazonHighlights_def flipkartHighlights_def cromaHighlights_def meeshoHighlights_def
  relianceHighlights_def myntraHighlights_def

lemma take_filter_bound:
  "h \<in> set (take n (filter P xs)) \<Longrightarrow> P h"
  by (auto dest: in_set_takeD)

lemma highlights_take:
  "highlights (amazonProduct e d) = take 6 (amazonHighlights d)"
  "highlights (flipkartProduct e d) = take 6 (flipkartHighlights d)"
  "highlights (cromaProduct e d) = take 6 (cromaHighlights d)"
  "highlights (meeshoProduct e d) = take 6 (meeshoHighlights d)"
  "highlights (relianceDigitalProduct e d) = take 6 (relianceHighlights d)"
  "highlights (myntraProduct e d) = take 6 (myntraHighlights d)"
  by (simp_all add: product_defs Let_def)

lemma amazonHighlights_bound:
  "h \<in> set (amazonHighlights d) \<Longrightarrow> 10 < length h \<and> length h < 500"
  unfolding amazonHighlights_def Let_def by (simp split: if_splits)

lemma amazon_highlights:
  "length (highlights (amazonProduct e d)) \<le> 6
   \<and> (\<forall>h\<in>set (highlights (amazonProduct e d)). 10 < length h \<and> length h < 500)"
  unfolding highlights_take by (auto dest!: in_set_takeD amazonHighlights_bound)

lemma flipkart_highlights:
  "length (highlights (flipkartProduct e d)) \<le> 6
   \<and> (\<forall>h\<in>set (highlights (flipkartProduct e d)). 5 < length h \<and> length h < 300)"
  unfolding highlights_take flipkartHighlights_def by (auto dest!: in_set_takeD)

lemma other_highlights:
  assumes "ex \<in> {cromaProduct, meeshoProduct, relianceDigitalProduct, myntraProduct}"
  shows "length (highlights (ex e d)) \<le> 6 \<and> (\<forall>h\<in>set (highlights (ex e d)). 5 < length h)"
proof -
  have c: "length (highlights (cromaProduct e d)) \<le> 6
      \<and> (\<forall>h\<in>set (highlights (cromaProduct e d)). 5 < length h)"
    unfolding highlights_take cromaHighlights_def by (auto dest!: in_set_takeD)
  have m: "length (highlights (meeshoProduct e d)) \<le> 6
      \<and> (\<forall>h\<in>set (highlights (meeshoProduct e d)). 5 < length h)"
    unfolding highlights_take meeshoHighlights_def by (auto dest!: in_set_takeD)
  have r: "length (highlights (relianceDigitalProduct e d)) \<le> 6
      \<and> (\<forall>h\<in>set (highlights (relianceDigitalProduct e d)). 5 < length h)"
    unfolding highlights_take relianceHighlights_def by (auto dest!: in_set_takeD)
  have y: "length (highlights (myntraProduct e d)) \<le> 6
      \<and> (\<forall>h\<in>set (highlights (myntraProduct e d)). 5 < length h)"
    unfolding highlights_take myntraHighlights_def by (auto dest!: in_set_takeD)
  from assms c m r y show ?thesis by blast
qed

text \<open>
  C9 (amended). Every product a site extractor returns has at most 6 highlights. Each
  scraper has a length filter of its own on the trimmed text of an item: Amazon keeps the
  texts with more than 10 and fewer than 500 code units, Flipkart those with more than 5
  and fewer than 300, and Croma, Meesho, Reliance Digital and Myntra those with more than
  5, without an upper limit.
\<close>

theorem highlights_bounds:
  "(\<forall>p. snd (scrapeAmazonProduct e u) = Some p \<longrightarrow>
       length (highlights p) \<le> 6 \<and> (\<forall>h\<in>set (highlights p). 10 < length h \<and> length h < 500))
   \<and> (\<forall>p. snd (scrapeFlipkartProduct e u) = Some p \<longrightarrow>
       length (highlights p) \<le> 6 \<and> (\<forall>h\<in>set (highlights p). 5 < length h \<and> length h < 300))
   \<and> (\<forall>f\<in>{scrapeCromaProduct, scrapeMeeshoProduct, scrapeRelianceDigitalProduct,
             scrapeMyntraProduct}.
        \<forall>p. snd (f e u) = Some p \<longrightarrow>
          length (highlights p) \<le> 6 \<and> (\<forall>h\<in>set (highlights p). 5 < length h))"
proof (intro conjI allI impI ballI)
  fix p assume "snd (scrapeAmazonProduct e u) = Some p"
  then obtain d where p: "p = amazonProduct e d"
    unfolding scrapeAmazonProduct_def by (blast dest: scrapeWith_Some)
  show "length (highlights p) \<le> 6" unfolding p using amazon_highlights by blast
  fix h assume "h \<in> set (highlights p)"
  then show "10 < length h" "length h < 500" unfolding p using amazon_highlights by blast+
next
  fix p assume "snd (scrapeFlipkartProduct e u) = Some p"
  then obtain d where p: "p = flipkartProduct e d"
    unfolding scrapeFlipkartProduct_def by (blast dest: scrapeWith_Some)
  show "length (highlights p) \<le> 6" unfolding p using flipkart_highlights by blast
  fix h assume "h \<in> set (highlights p)"
  then show "5 < length h" "length h < 300" unfolding p using flipkart_highlights by blast+
next
  fix f p
  assume f: "f \<in> {scrapeCromaProduct, scrapeMeeshoProduct, scrapeRelianceDigitalProduct,
             scrapeMyntraProduct}" and s: "snd (f e u) = Some p"
  from f obtain ex where ex: "ex \<in> {cromaProduct, meeshoProduct, relianceDigitalProduct, myntraProduct}"
    and fe: "f = scrapeWith ex"
    unfolding scrape_defs by auto
  from s obtain d where p: "p = ex e d" unfolding fe by (blast dest: scrapeWith_Some)
  show "length (highlights p) \<le> 6" unfolding p using other_highlights [OF ex] by blast
  fix h assume "h \<in> set (highlights p)"
  then show "5 < length h" unfolding p using other_highlights [OF ex] by blast
qed



lemma dropWhile_replicate_not: "\<not> P c \<Longrightarrow> dropWhile P (replicate n c) = replicate n c"
  by (cases n) simp_all

lemma trim_replicate: "\<not> isWhiteSpace c \<Longrightarrow> trim (replicate n c) = replicate n c"
  by (simp add: trim_def dropWhile_replicate_not)

lemma trim_letters: "trim (replicate 600 97) = replicate 600 97"
  by (rule trim_replicate) (simp add: isWhiteSpace_def)

lemma trim_8GB: "trim (ascii ''8GB RAM'') = ascii ''8GB RAM''"
  by (simp add: trim_def isWhiteSpace_def ascii_def)

lemma featurePage_texts:
  "texts featurePage ''li._7eSDEz, li.rgWa7D'' = [ascii ''8GB RAM'', replicate 600 97]"
  "texts featurePage ''ul.key-features li, div.product-highlights li''
     = [ascii ''8GB RAM'', replicate 600 97]"
  by (simp_all add: featurePage_def emptyPage_def)

lemma scrapeWith_online: "snd (scrapeWith ex (online d) u) = Some (ex (online d) d)"
  by (simp add: scrapeWith_def fetchPage_def online_def)

lemma length_8GB: "length (ascii ''8GB RAM'') = 7" "ascii ''8GB RAM'' \<noteq> []"
  by (simp_all add: ascii_def)

text \<open>
  C9, as the claim states it (every entry strictly between 10 and 500 long), fails on the
  code: on a page whose feature list is \<open>8GB RAM\<close> and a text of 600 letters, the Croma
  scraper returns both as highlights and the Flipkart scraper returns \<open>8GB RAM\<close>.
\<close>

theorem highlights_bounds_counterexample:
  "map length (highlights (the (snd (scrapeCromaProduct (online featurePage)
        (ascii ''https://www.croma.com/p/1''))))) = [7, 600]
   \<and> map length (highlights (the (snd (scrapeFlipkartProduct (online featurePage)
        (ascii ''https://www.flipkart.com/p/1''))))) = [7]"
  unfolding scrapeCromaProduct_def scrapeFlipkartProduct_def scrapeWith_online option.sel
    highlights_take cromaHighlights_def flipkartHighlights_def featurePage_texts
  by (simp add: trim_letters trim_8GB length_8GB)

text \<open>The bounds of the Croma scraper at that page.\<close>

theorem highlights_bounds_witness:
  "snd (scrapeCromaProduct (online featurePage) (ascii ''https://www.croma.com/p/1''))
     = Some (cromaProduct (online featurePage) featurePage)
   \<and> length (highlights (cromaProduct (online featurePage) featurePage)) \<le> 6
   \<and> list_all (\<lambda>h. 5 < length h) (highlights (cromaProduct (online featurePage) featurePage))
   \<and> highlights (cromaProduct (online featurePage) featurePage)
       = [ascii ''8GB RAM'', replicate 600 97]"
proof -
  let ?e = "online featurePage" and ?u = "ascii ''https://www.croma.com/p/1''"
  have s: "snd (scrapeCromaProduct ?e ?u) = Some (cromaProduct ?e featurePage)"
    unfolding scrapeCromaProduct_def by (rule scrapeWith_online)
  have m: "scrapeCromaProduct \<in> {scrapeCromaProduct, scrapeMeeshoProduct,
      scrapeRelianceDigitalProduct, scrapeMyntraProduct}" by simp
  from highlights_bounds [of ?e ?u] m s
  have b: "length (highlights (cromaProduct ?e featurePage)) \<le> 6
      \<and> (\<forall>h\<in>set (highlights (cromaProduct ?e featurePage)). 5 < length h)"
    by blast
  have v: "highlights (cromaProduct ?e featurePage) = [ascii ''8GB RAM'', replicate 600 97]"
    unfolding highlights_take cromaHighlights_def featurePage_texts
    by (simp add: trim_letters trim_8GB length_8GB)
  from b have l: "list_all (\<lambda>h. 5 < length h) (highlights (cromaProduct ?e featurePage))"
    by (simp add: list_all_iff)
  from s b l v show ?thesis by blast
qed


lemma Product_nonempty: "ascii ''Product'' \<noteq> []"
  by (simp add: ascii_def)

lemma no_texts:
  assumes "texts d = (\<lambda>sel. [])"
  shows "text_of d sel = []" "first_text d sel = []"
  using assms by (simp_all add: text_of_def first_text_def first_of_def)

lemma trim_Nil: "trim [] = []"
  by (simp add: trim_def)

lemma first_nonempty_Nil: "first_nonempty (replicate n []) = []"
  by (induction n) (simp_all add: first_nonempty_def first_of_def)

lemma product_title:
  assumes "ex \<in> {amazonProduct, flipkartProduct, cromaProduct, meeshoProduct,
                  relianceDigitalProduct, myntraProduct}"
  shows "title (ex e d) \<noteq> []
       \<and> price_currency (ex e d) = ascii ''INR''
       \<and> (texts d = (\<lambda>sel. []) \<longrightarrow> title (ex e d) = ascii ''Product'')"
proof -
  have fn: "first_nonempty [[], [], []] = []" "first_nonempty [[], []] = []"
    "first_nonempty [[], [], [], [], [], []] = []"
    by (simp_all add: first_nonempty_def first_of_def)
  have a: "title (amazonProduct e d) \<noteq> [] \<and> price_currency (amazonProduct e d) = ascii ''INR''
      \<and> (texts d = (\<lambda>sel. []) \<longrightarrow> title (amazonProduct e d) = ascii ''Product'')"
    by (simp add: amazonProduct_def Let_def Product_nonempty no_texts trim_Nil fn)
  have f: "title (flipkartProduct e d) \<noteq> [] \<and> price_currency (flipkartProduct e d) = ascii ''INR''
      \<and> (texts d = (\<lambda>sel. []) \<longrightarrow> title (flipkartProduct e d) = ascii ''Product'')"
    by (simp add: flipkartProduct_def Let_def Product_nonempty no_texts trim_Nil fn)
  have c: "title (cromaProduct e d) \<noteq> [] \<and> price_currency (cromaProduct e d) = ascii ''INR''
      \<and> (texts d = (\<lambda>sel. []) \<longrightarrow> title (cromaProduct e d) = ascii ''Product'')"
    by (simp add: cromaProduct_def Let_def Product_nonempty no_texts trim_Nil fn)
  have m: "title (meeshoProduct e d) \<noteq> [] \<and> price_currency (meeshoProduct e d) = ascii ''INR''
      \<and> (texts d = (\<lambda>sel. []) \<longrightarrow> title (meeshoProduct e d) = ascii ''Product'')"
    by (simp add: meeshoProduct_def Let_def Product_nonempty no_texts trim_Nil fn)
  have r: "title (relianceDigitalProduct e d) \<noteq> []
      \<and> price_currency (relianceDigitalProduct e d) = ascii ''INR''
      \<and> (texts d = (\<lambda>sel. []) \<longrightarrow> title (relianceDigitalProduct e d) = ascii ''Product'')"
    by (simp add: relianceDigitalProduct_def Let_def Product_nonempty no_texts trim_Nil fn)
  have y: "title (myntraProduct e d) \<noteq> [] \<and> price_currency (myntraProduct e d) = ascii ''INR''
      \<and> (texts d = (\<lambda>sel. []) \<longrightarrow> title (myntraProduct e d) = ascii ''Product'')"
    by (simp add: myntraProduct_def Let_def Product_nonempty no_texts trim_Nil fn)
  from assms a f c m r y show ?thesis by blast
qed

lemma scrapeWith_cases:
  "fst (scrapeWith ex e u) = [u]"
  "snd (scrapeWith ex e u) = None
     \<longleftrightarrow> respond e u = NetworkError \<or> (\<exists>d. respond e u = Response False d)"
  "respond e u = Response True d \<Longrightarrow> snd (scrapeWith ex e u) = Some (ex e d)"
  by (auto simp: scrapeWith_def fetchPage_def split: response.splits)

lemma extractors_scrapeWith:
  assumes "tf \<in> set extractors"
  shows "\<exists>ex\<in>{amazonProduct, flipkartProduct, cromaProduct, meeshoProduct,
                relianceDigitalProduct, myntraProduct}. snd tf = scrapeWith ex"
  using assms unfolding extractors_def scrape_defs by auto

text \<open>
  C6. Each of the six extractors makes exactly one request, to the URL it is given. It
  returns \<open>null\<close> exactly when that request fails (a network error) or is answered with a
  status that is not 2xx. A page that is fetched always yields a product record, and its
  title is never empty: on a page where no selector matches anything the title is the
  placeholder \<open>Product\<close>. The model takes the cheerio queries as total functions, so that
  the fetch is the only throwing call inside the \<open>try\<close>.
\<close>

theorem scrape_null_iff_fetch_fails:
  "\<forall>tf\<in>set extractors.
      fst (snd tf e u) = [u]
    \<and> (snd (snd tf e u) = None
         \<longleftrightarrow> respond e u = NetworkError \<or> (\<exists>d. respond e u = Response False d))
    \<and> (\<forall>d. respond e u = Response True d \<longrightarrow>
         (\<exists>p. snd (snd tf e u) = Some p
            \<and> title p \<noteq> []
            \<and> (texts d = (\<lambda>sel. []) \<longrightarrow> title p = ascii ''Product'')))"
proof
  fix tf assume "tf \<in> set extractors"
  from extractors_scrapeWith [OF this] obtain ex where
    ex: "ex \<in> {amazonProduct, flipkartProduct, cromaProduct, meeshoProduct,
                relianceDigitalProduct, myntraProduct}" and f: "snd tf = scrapeWith ex"
    by blast
  show "fst (snd tf e u) = [u]
    \<and> (snd (snd tf e u) = None
         \<longleftrightarrow> respond e u = NetworkError \<or> (\<exists>d. respond e u = Response False d))
    \<and> (\<forall>d. respond e u = Response True d \<longrightarrow>
         (\<exists>p. snd (snd tf e u) = Some p
            \<and> title p \<noteq> []
            \<and> (texts d = (\<lambda>sel. []) \<longrightarrow> title p = ascii ''Product'')))"
    unfolding f using scrapeWith_cases [where ex = ex and e = e and u = u]
      product_title [OF ex, of e] by auto
qed


text \<open>The Croma scraper without network, and on a fetched page without any content.\<close>

theorem scrape_null_iff_fetch_fails_witness:
  "respond offline (ascii ''https://www.croma.com/p/1'') = NetworkError
   \<and> snd (scrapeCromaProduct offline (ascii ''https://www.croma.com/p/1'')) = None
   \<and> respond (online emptyPage) (ascii ''https://www.croma.com/p/1'') = Response True emptyPage
   \<and> map_option title (snd (scrapeCromaProduct (online emptyPage)
         (ascii ''https://www.croma.com/p/1''))) = Some (ascii ''Product'')"
proof -
  let ?u = "ascii ''https://www.croma.com/p/1''"
  have m: "(''croma'', scrapeCromaProduct) \<in> set extractors" by (simp add: extractors_def)
  have 1: "respond offline ?u = NetworkError" by (simp add: offline_def)
  have 2: "respond (online emptyPage) ?u = Response True emptyPage" by (simp add: online_def)
  have 3: "texts emptyPage = (\<lambda>sel. [])" by (simp add: emptyPage_def)
  from scrape_null_iff_fetch_fails [of offline ?u] m 1
  have a: "snd (scrapeCromaProduct offline ?u) = None" by fastforce
  from scrape_null_iff_fetch_fails [of "online emptyPage" ?u] m 2 3
  have b: "\<exists>p. snd (scrapeCromaProduct (online emptyPage) ?u) = Some p
      \<and> title p = ascii ''Product''" by fastforce
  then have c: "map_option title (snd (scrapeCromaProduct (online emptyPage) ?u))
      = Some (ascii ''Product'')" by auto
  from 1 a 2 c show ?thesis by blast
qed

lemma jget_example:
  "jget (JObj [(ascii ''@type'', JStr (ascii ''Product'')),
               (ascii ''offers'', JObj [(ascii ''price'', JNum 999)])]) ''@type''
     = JStr (ascii ''Product'')"
  "jget (JObj [(ascii ''@type'', JStr (ascii ''Product'')),
               (ascii ''offers'', JObj [(ascii ''price'', JNum 999)])]) ''offers''
     = JObj [(ascii ''price'', JNum 999)]"
  "jget (JObj [(ascii ''price'', JNum 999)]) ''price'' = JNum 999"
  "jget (JObj [(ascii ''price'', JNum 999)]) ''highPrice'' = JUndefined"
  by (simp_all add: ascii_def)

lemma ldPage_reader:
  "extractPriceFromJsonLd (online ldPage) ldPage = Some \<lparr>ld_current = 999, ld_original = None\<rparr>"
  unfolding extractPriceFromJsonLd_def ldPage_def emptyPage_def
  by (simp add: jget_example nullish_def online_def) (simp add: ascii_def)

lemma ldPage_no_texts: "texts ldPage = (\<lambda>sel. [])"
  by (simp add: ldPage_def emptyPage_def)

lemma firstPositivePrice_no_texts:
  "(\<And>sel. get sel = []) \<Longrightarrow> firstPositivePrice get sels = 0"
  by (induction sels) (simp_all add: trim_Nil)

lemma parsePrice_Nil: "parsePrice [] = 0"
  by (simp add: parsePrice_def)

lemma ldPage_prices:
  "price_current (amazonProduct (online ldPage) ldPage) = 999"
  "price_current (flipkartProduct (online ldPage) ldPage) = 999"
  "price_current (cromaProduct (online ldPage) ldPage) = 0"
  "price_current (meeshoProduct (online ldPage) ldPage) = 0"
  "price_current (relianceDigitalProduct (online ldPage) ldPage) = 0"
  "price_current (myntraProduct (online ldPage) ldPage) = 0"
  by (simp_all add: product_defs amazonCurrentPrice_def flipkartCurrentPrice_def Let_def
      ldPage_reader no_texts [OF ldPage_no_texts] firstPositivePrice_no_texts trim_Nil
      first_nonempty_def first_of_def parsePrice_Nil ldPage_no_texts)

text \<open>
  C5. The fall-back to the structured data is written in the Amazon and in the Flipkart
  scraper only. On a fetched page without any price in its markup, whose structured data
  is a Product with the offer price 999, the reader finds 999 and these two scrapers
  return it as the current price; the Croma, Meesho, Reliance Digital and Myntra scrapers
  never call the reader and return the price 0.
\<close>

theorem jsonLd_fallback_only_amazon_flipkart:
  "extractPriceFromJsonLd (online ldPage) ldPage = Some \<lparr>ld_current = 999, ld_original = None\<rparr>
   \<and> map (\<lambda>f. map_option price_current (snd (f (online ldPage) (ascii ''https://shop.example/p/1''))))
        [scrapeAmazonProduct, scrapeFlipkartProduct, scrapeCromaProduct, scrapeMeeshoProduct,
         scrapeRelianceDigitalProduct, scrapeMyntraProduct]
     = [Some 999, Some 999, Some 0, Some 0, Some 0, Some 0]"
  by (simp add: ldPage_reader scrape_defs scrapeWith_online ldPage_prices)

section \<open>The router and the aggregator\<close>

lemma scrapeProduct_find:
  "scrapeProduct e u =
     (case find (\<lambda>tf. js_includes (toLowerCase u) (ascii (fst tf))) extractors of
        None \<Rightarrow> ([], None)
      | Some tf \<Rightarrow> snd tf e u)"
  by (simp add: scrapeProduct_def extractors_def Let_def)

lemma toLowerCase_cong:
  "list_all2 (\<lambda>a b. lowerUnit a = lowerUnit b) u u' \<Longrightarrow> toLowerCase u = toLowerCase u'"
  by (induction rule: list_all2_induct) (simp_all add: toLowerCase_def)

text \<open>
  C7. When the lower-cased URL contains none of the six domain tokens, \<open>scrapeProduct\<close>
  returns \<open>null\<close> and no request has been made. Otherwise it is the scraper of the first
  token, in the order amazon, flipkart, croma, meesho, reliancedigital, myntra, that the
  lower-cased URL contains, and exactly the given URL is requested. The choice depends on
  the lower-cased URL only: two URLs whose code units agree up to case are routed alike.
\<close>

theorem scrapeProduct_routing:
  "((\<forall>tf\<in>set extractors. \<not> js_includes (toLowerCase u) (ascii (fst tf)))
       \<longrightarrow> scrapeProduct e u = ([], None))
   \<and> scrapeProduct e u =
       (case find (\<lambda>tf. js_includes (toLowerCase u) (ascii (fst tf))) extractors of
          None \<Rightarrow> ([], None)
        | Some tf \<Rightarrow> snd tf e u)
   \<and> map fst extractors
       = [''amazon'', ''flipkart'', ''croma'', ''meesho'', ''reliancedigital'', ''myntra'']
   \<and> ((\<exists>tf\<in>set extractors. js_includes (toLowerCase u) (ascii (fst tf)))
       \<longrightarrow> fst (scrapeProduct e u) = [u])
   \<and> (\<forall>u'. list_all2 (\<lambda>a b. lowerUnit a = lowerUnit b) u u'
       \<longrightarrow> find (\<lambda>tf. js_includes (toLowerCase u') (ascii (fst tf))) extractors
         = find (\<lambda>tf. js_includes (toLowerCase u) (ascii (fst tf))) extractors)"
proof (intro conjI impI allI)
  assume "\<forall>tf\<in>set extractors. \<not> js_includes (toLowerCase u) (ascii (fst tf))"
  then have "find (\<lambda>tf. js_includes (toLowerCase u) (ascii (fst tf))) extractors = None"
    unfolding find_None_iff by blast
  then show "scrapeProduct e u = ([], None)" by (simp add: scrapeProduct_find)
next
  show "scrapeProduct e u =
       (case find (\<lambda>tf. js_includes (toLowerCase u) (ascii (fst tf))) extractors of
          None \<Rightarrow> ([], None)
        | Some tf \<Rightarrow> snd tf e u)"
    by (rule scrapeProduct_find)
next
  show "map fst extractors
       = [''amazon'', ''flipkart'', ''croma'', ''meesho'', ''reliancedigital'', ''myntra'']"
    by (simp add: extractors_def)
next
  assume "\<exists>tf\<in>set extractors. js_includes (toLowerCase u) (ascii (fst tf))"
  then obtain tf where
    f: "find (\<lambda>tf. js_includes (toLowerCase u) (ascii (fst tf))) extractors = Some tf"
    by (cases "find (\<lambda>tf. js_includes (toLowerCase u) (ascii (fst tf))) extractors")
       (fastforce simp only: find_None_iff)+
  then have "tf \<in> set extractors" unfolding find_Some_iff by (metis nth_mem)
  then obtain ex where "snd tf = scrapeWith ex"
    unfolding extractors_def scrapeAmazonProduct_def scrapeFlipkartProduct_def
      scrapeCromaProduct_def scrapeMeeshoProduct_def scrapeRelianceDigitalProduct_def
      scrapeMyntraProduct_def by auto
  then show "fst (scrapeProduct e u) = [u]"
    by (simp add: scrapeProduct_find f scrapeWith_cases(1))
next
  fix u' assume "list_all2 (\<lambda>a b. lowerUnit a = lowerUnit b) u u'"
  then have "toLowerCase u = toLowerCase u'" by (rule toLowerCase_cong)
  then show "find (\<lambda>tf. js_includes (toLowerCase u') (ascii (fst tf))) extractors
         = find (\<lambda>tf. js_includes (toLowerCase u) (ascii (fst tf))) extractors"
    by simp
qed

lemmas includes_eval = toLowerCase_def lowerUnit_def ascii_def

text \<open>An eBay URL, and an Amazon URL written in capitals, without network.\<close>

theorem scrapeProduct_routing_witness:
  "scrapeProduct offline (ascii ''https://www.ebay.com/itm/1'') = ([], None)
   \<and> js_includes (toLowerCase (ascii ''https://www.AMAZON.in/dp/B0'')) (ascii ''amazon'')
   \<and> fst (scrapeProduct offline (ascii ''https://www.AMAZON.in/dp/B0''))
       = [ascii ''https://www.AMAZON.in/dp/B0'']"
proof -
  let ?a = "ascii ''https://www.ebay.com/itm/1''" and ?b = "ascii ''https://www.AMAZON.in/dp/B0''"
  have n: "\<forall>tf\<in>set extractors. \<not> js_includes (toLowerCase ?a) (ascii (fst tf))"
    by (simp add: extractors_def includes_eval)
  have 1: "scrapeProduct offline ?a = ([], None)"
    using scrapeProduct_routing [of ?a offline] n by blast
  have 2: "js_includes (toLowerCase ?b) (ascii ''amazon'')" by (simp add: includes_eval)
  then have "\<exists>tf\<in>set extractors. js_includes (toLowerCase ?b) (ascii (fst tf))"
    by (simp add: extractors_def)
  with scrapeProduct_routing [of ?b offline] have 3: "fst (scrapeProduct offline ?b) = [?b]"
    by blast
  from 1 2 3 show ?thesis by blast
qed








lemmas search_eval =
  searchProductPrices_def searchPromises_def searchAmazonPrice_def searchFlipkartPrice_def
  searchCromaPrice_def searchReliancePrice_def searchWith_def fetchPage_def
  amazonFirstResult_def flipkartFirstResult_def cromaFirstResult_def relianceFirstResult_def
  resultUrlOf_def sourceEntry_def online_def searchPage_def emptyPage_def
  first_text_def first_of_def first_nonempty_def amazonSearchPriceSelectors_def
  flipkartSearchPriceSelectors_def toLowerCase_def lowerUnit_def Let_def

lemma croma_result:
  "snd (searchProductPrices (online searchPage) (ascii ''Phone X'') (ascii ''Amazon'') 49990
          (ascii ''https://www.amazon.in/dp/B0''))
   = [sourceEntry (ascii ''Amazon'') 49990 (ascii ''https://www.amazon.in/dp/B0''),
      \<lparr>store = ascii ''Croma'', price = 54990, currency = ascii ''INR'',
       url = ascii ''https://www.croma.com/p/1'', availability = InStock,
       productTitle = Some (ascii ''Phone X'')\<rparr>]"
  by (simp add: search_eval parsePrice_eval)



lemma markBest_other [simp]:
  "pd_currency (markBest b p) = pd_currency p" "pd_availability (markBest b p) = pd_availability p"
  by (simp_all add: markBest_def Let_def)

lemma firstResult_fields:
  assumes "fr \<in> {amazonFirstResult, flipkartFirstResult, cromaFirstResult, relianceFirstResult}"
      and "fr searchUrl d = Some r"
  shows "availability r = InStock \<and> currency r = ascii ''INR''"
proof -
  have a: "amazonFirstResult searchUrl d = Some r \<Longrightarrow> ?thesis"
    by (auto simp: amazonFirstResult_def Let_def split: if_splits)
  have f: "flipkartFirstResult searchUrl d = Some r \<Longrightarrow> ?thesis"
    by (auto simp: flipkartFirstResult_def Let_def split: if_splits)
  have c: "cromaFirstResult searchUrl d = Some r \<Longrightarrow> ?thesis"
    by (auto simp: cromaFirstResult_def Let_def split: if_splits)
  have l: "relianceFirstResult searchUrl d = Some r \<Longrightarrow> ?thesis"
    by (auto simp: relianceFirstResult_def Let_def split: if_splits)
  from assms a f c l show ?thesis by blast
qed

lemma searchWith_Some:
  "snd (searchWith n base fr e t) = Some r \<Longrightarrow> \<exists>searchUrl d. fr searchUrl d = Some r"
  by (auto simp: searchWith_def fetchPage_def Let_def
      split: option.splits response.splits if_splits)

lemma searchPromises_fields:
  assumes "x \<in> set (searchPromises e t sm)" "snd x = Some r"
  shows "availability r = InStock \<and> currency r = ascii ''INR''"
proof -
  from assms(1) obtain n base fr where
    fr: "fr \<in> {amazonFirstResult, flipkartFirstResult, cromaFirstResult, relianceFirstResult}"
    and x: "x = searchWith n base fr e t"
    unfolding searchPromises_def searchAmazonPrice_def searchFlipkartPrice_def
      searchCromaPrice_def searchReliancePrice_def
    by (auto split: if_splits)
  from assms(2) obtain searchUrl d where "fr searchUrl d = Some r"
    unfolding x by (blast dest: searchWith_Some)
  with fr show ?thesis by (rule firstResult_fields)
qed

lemma successful_member: "r \<in> set (successful rs) \<Longrightarrow> Some r \<in> set rs"
  by (induction rs rule: successful.induct) (auto split: if_splits)

lemma searchProductPrices_fields:
  assumes "r \<in> set (snd (searchProductPrices e t sm sp su))"
  shows "availability r = InStock \<and> currency r = ascii ''INR''"
proof -
  from assms consider "r = sourceEntry sm sp su"
    | "r \<in> set (successful (case race_outcome e of
              BatchSettled \<Rightarrow> map snd (searchPromises e t sm) | DeadlineElapsed \<Rightarrow> []))"
    by (auto simp: searchProductPrices_def Let_def)
  then show ?thesis
  proof cases
    case 1
    then show ?thesis by (simp add: sourceEntry_def)
  next
    case 2
    from successful_member [OF 2] have "Some r \<in> set (map snd (searchPromises e t sm))"
      by (cases "race_outcome e") simp_all
    then obtain x where "x \<in> set (searchPromises e t sm)" "snd x = Some r" by auto
    then show ?thesis by (rule searchPromises_fields)
  qed
qed

text \<open>
  C10. Every observation of the aggregator, the entry of the source and every search
  result, has the availability \<open>in-stock\<close> and the currency \<open>INR\<close>, and so has every entry
  of the price list the handler builds from them, the placeholders included.
\<close>

theorem observations_in_stock_INR:
  "(\<forall>r\<in>set (snd (searchProductPrices e t sm sp su)).
       availability r = InStock \<and> currency r = ascii ''INR'')
   \<and> (\<forall>out. priceList e' t' m (snd (searchProductPrices e t sm sp su)) = Inr out \<longrightarrow>
        (\<forall>q\<in>set out. pd_availability q = InStock \<and> pd_currency q = ascii ''INR''))"
proof (intro conjI allI impI ballI)
  fix r assume "r \<in> set (snd (searchProductPrices e t sm sp su))"
  then show "availability r = InStock" "currency r = ascii ''INR''"
    using searchProductPrices_fields by blast+
next
  fix out q
  let ?s = "snd (searchProductPrices e t sm sp su)"
  assume o: "priceList e' t' m ?s = Inr out" and q: "q \<in> set out"
  from priceList_Inr [OF o] obtain ph where
    out: "out = rankPrices (map toPriceData ?s) @ map placeholder ph" by blast
  have ne: "map toPriceData ?s \<noteq> []" by (simp add: searchProductPrices_def Let_def)
  from q consider r where "r \<in> set ?s" "q = markBest (Min (set (map pd_price (map toPriceData ?s)))) (toPriceData r)"
    | mp where "q = placeholder mp"
    unfolding out rankPrices_map [OF ne] by auto
  then have "pd_availability q = InStock \<and> pd_currency q = ascii ''INR''"
  proof cases
    case 1
    with searchProductPrices_fields [OF 1(1)] show ?thesis by (simp add: toPriceData_def)
  next
    case 2
    then show ?thesis by (simp add: placeholder_def)
  qed
  then show "pd_availability q = InStock" "pd_currency q = ascii ''INR''" by blast+
qed

text \<open>The two observations of the search above.\<close>

theorem observations_in_stock_INR_witness:
  "map availability (snd (searchProductPrices (online searchPage) (ascii ''Phone X'')
        (ascii ''Amazon'') 49990 (ascii ''https://www.amazon.in/dp/B0''))) = [InStock, InStock]
   \<and> map currency (snd (searchProductPrices (online searchPage) (ascii ''Phone X'')
        (ascii ''Amazon'') 49990 (ascii ''https://www.amazon.in/dp/B0'')))
       = [ascii ''INR'', ascii ''INR'']"
proof -
  let ?s = "snd (searchProductPrices (online searchPage) (ascii ''Phone X'')
        (ascii ''Amazon'') 49990 (ascii ''https://www.amazon.in/dp/B0''))"
  have l: "length ?s = 2" by (simp add: croma_result)
  from observations_in_stock_INR
    [of "online searchPage" "ascii ''Phone X''" "ascii ''Amazon''" 49990
        "ascii ''https://www.amazon.in/dp/B0''"]
  have "\<forall>r\<in>set ?s. availability r = InStock \<and> currency r = ascii ''INR''" by blast
  then have "map availability ?s = map (\<lambda>r. InStock) ?s"
    and "map currency ?s = map (\<lambda>r. ascii ''INR'') ?s" by simp_all
  then show ?thesis unfolding map_replicate_const l by (simp add: numeral_2_eq_2)
qed

end
